theory Spec2Isabelle
  imports Main "HOL-Library.Word" "HOL-Library.Sublist" "HOL-Library.Product_Lexorder"
begin

section \<open>The in-memory job queue (api/queue.js)\<close>

text \<open>
  The module keeps four arrays of job objects (\<open>pending\<close>, \<open>processing\<close>,
  \<open>completed\<close>, \<open>failed\<close>). Job objects are shared by reference between the arrays,
  the closures of suspended \<open>processJob\<close> calls and the value \<open>addJob\<close> returns, so
  the model keeps an explicit store from references to job objects; the arrays hold
  references. JavaScript runs one synchronous segment at a time: every function below is
  the code between two \<open>await\<close>s, and the outcome of the awaited database call is
  a parameter of the segment that resumes after it. The clock readings
  (\<open>Date.now()\<close>, \<open>new Date()\<close>) of a segment are the parameter \<open>now\<close>, in
  milliseconds. Logger calls have no effect on the queue and are left out.
\<close>

datatype job_status = Pending | Processing | Completed | Failed | Cancelled

record payload =
  recipient :: "string option"
  content :: "string option"
  mediaUrl :: "string option"
  mediaType :: "string option"

record jobData = payload +
  job_type :: "string option"

record job = jobData +
  job_id :: string
  status :: job_status
  createdAt :: nat
  retryCount :: nat
  startedAt :: "nat option"
  completedAt :: "nat option"
  cancelledAt :: "nat option"
  failedAt :: "nat option"
  updatedAt :: "nat option"
  error_message :: "string option"

text \<open>The calls the module makes to the persistence layer, in the order it makes them.\<close>

datatype job_update =
  UStatus job_status | UCompletedAt nat | UErrorMessage string | URetryCount nat

datatype db_call =
  SaveQueueJob string jobData job_status
| UpdateQueueJob string "job_update list"

text \<open>An awaited database call either resolves or rejects with an error message.\<close>

datatype outcome = Resolved | Rejected string

record queue =
  heap :: "nat \<rightharpoonup> job"
  next_ref :: nat
  pending :: "nat list"
  processing :: "nat list"
  completed :: "nat list"
  failed :: "nat list"
  db_calls :: "db_call list"

definition empty_queue :: queue where
  "empty_queue = \<lparr>heap = Map.empty, next_ref = 0, pending = [], processing = [],
     completed = [], failed = [], db_calls = []\<rparr>"

text \<open>\<open>Array.prototype.findIndex\<close>; the result \<open>-1\<close> is \<open>None\<close>.\<close>

fun findIndex :: "('a \<Rightarrow> bool) \<Rightarrow> 'a list \<Rightarrow> nat option" where
  "findIndex P [] = None"
| "findIndex P (x # xs) = (if P x then Some 0 else map_option Suc (findIndex P xs))"

text \<open>\<open>xs.splice(i, 1)\<close>: the array without its element at index \<open>i\<close>.\<close>

definition splice1 :: "nat \<Rightarrow> 'a list \<Rightarrow> 'a list" where
  "splice1 i xs = take i xs @ drop (Suc i) xs"

text \<open>The object a reference points to, and the update of one object in place.\<close>

definition deref :: "queue \<Rightarrow> nat \<Rightarrow> job" where
  "deref s a = the (heap s a)"

definition modify :: "nat \<Rightarrow> (job \<Rightarrow> job) \<Rightarrow> queue \<Rightarrow> queue" where
  "modify a f s = s\<lparr>heap := (heap s)(a \<mapsto> f (deref s a))\<rparr>"

definition has_id :: "queue \<Rightarrow> string \<Rightarrow> nat \<Rightarrow> bool" where
  "has_id s jobId a = (job_id (deref s a) = jobId)"

text \<open>\<open>Number.prototype.toString\<close> on a non-negative integer: its decimal digits.\<close>

definition digit_char :: "nat \<Rightarrow> char" where
  "digit_char d = char_of (48 + d)"

fun toString :: "nat \<Rightarrow> string" where
  "toString n = (if n < 10 then [digit_char n] else toString (n div 10) @ [digit_char (n mod 10)])"

declare toString.simps [simp del]

subsection \<open>processJob\<close>

text \<open>
  The synchronous prefix of \<open>processJob(jobId)\<close>, up to its first \<open>await\<close>: the first
  pending job with that id is moved to \<open>processing\<close>. The result is the reference the
  suspended call holds in its variable \<open>job\<close>, or \<open>None\<close> when the id was not found
  and the call returned.
\<close>

definition processJob_begin :: "nat \<Rightarrow> string \<Rightarrow> queue \<Rightarrow> nat option \<times> queue" where
  "processJob_begin now jobId s =
     (case findIndex (has_id s jobId) (pending s) of
        None \<Rightarrow> (None, s)
      | Some jobIndex \<Rightarrow>
          (let a = pending s ! jobIndex;
               s1 = s\<lparr>pending := splice1 jobIndex (pending s)\<rparr>;
               s2 = modify a (\<lambda>j. j\<lparr>status := Processing, startedAt := Some now\<rparr>) s1;
               s3 = s2\<lparr>processing := processing s2 @ [a]\<rparr>
           in (Some a, s3\<lparr>db_calls := db_calls s3 @ [UpdateQueueJob jobId [UStatus Processing]]\<rparr>)))"

text \<open>
  The \<open>catch\<close> block of \<open>processJob\<close>: the first job in \<open>processing\<close> with that id
  is moved to \<open>failed\<close>.
\<close>

definition processJob_catch :: "nat \<Rightarrow> string \<Rightarrow> string \<Rightarrow> queue \<Rightarrow> queue" where
  "processJob_catch now jobId msg s =
     (case findIndex (has_id s jobId) (processing s) of
        None \<Rightarrow> s
      | Some jobIndex \<Rightarrow>
          (let a = processing s ! jobIndex;
               s1 = s\<lparr>processing := splice1 jobIndex (processing s)\<rparr>;
               s2 = modify a (\<lambda>j. j\<lparr>status := Failed, error_message := Some msg,
                                      failedAt := Some now\<rparr>) s1;
               s3 = s2\<lparr>failed := failed s2 @ [a]\<rparr>
           in s3\<lparr>db_calls := db_calls s3 @ [UpdateQueueJob jobId [UStatus Failed, UErrorMessage msg]]\<rparr>))"

text \<open>
  The call resumes after \<open>await updateQueueJob(jobId, {status: 'processing'})\<close>:
  a rejection enters the \<open>catch\<close> block, otherwise the call waits for the timer.
\<close>

definition processJob_updated :: "nat \<Rightarrow> outcome \<Rightarrow> string \<Rightarrow> queue \<Rightarrow> queue" where
  "processJob_updated now r jobId s =
     (case r of Rejected msg \<Rightarrow> processJob_catch now jobId msg s | Resolved \<Rightarrow> s)"

text \<open>
  The call resumes after the one-second timer: its own job object \<open>a\<close> becomes
  \<open>completed\<close>, every job with that id leaves \<open>processing\<close>.
\<close>

definition processJob_timer :: "nat \<Rightarrow> string \<Rightarrow> nat \<Rightarrow> queue \<Rightarrow> queue" where
  "processJob_timer now jobId a s =
     (let s1 = modify a (\<lambda>j. j\<lparr>status := Completed, completedAt := Some now\<rparr>) s;
          s2 = s1\<lparr>processing := filter (\<lambda>b. \<not> has_id s1 jobId b) (processing s1)\<rparr>;
          s3 = s2\<lparr>completed := completed s2 @ [a]\<rparr>
      in s3\<lparr>db_calls := db_calls s3 @ [UpdateQueueJob jobId [UStatus Completed, UCompletedAt now]]\<rparr>)"

text \<open>The call resumes after \<open>await updateQueueJob(jobId, {status: 'completed', ...})\<close>.\<close>

definition processJob_finished :: "nat \<Rightarrow> outcome \<Rightarrow> string \<Rightarrow> queue \<Rightarrow> queue" where
  "processJob_finished now r jobId s =
     (case r of Rejected msg \<Rightarrow> processJob_catch now jobId msg s | Resolved \<Rightarrow> s)"

subsection \<open>addJob\<close>

text \<open>
  \<open>addJob(jobData)\<close> up to \<open>await saveQueueJob\<close>: a new job object with id
  \<open>Date.now().toString()\<close>, pushed to \<open>pending\<close>. The result is the reference of the
  new object.
\<close>

definition addJob_begin :: "nat \<Rightarrow> jobData \<Rightarrow> queue \<Rightarrow> nat \<times> queue" where
  "addJob_begin now jd s =
     (let a = next_ref s;
          j = \<lparr>recipient = recipient jd, content = content jd, mediaUrl = mediaUrl jd,
               mediaType = mediaType jd, job_type = job_type jd,
               job_id = toString now, status = Pending, createdAt = now, retryCount = 0,
               startedAt = None, completedAt = None, cancelledAt = None, failedAt = None,
               updatedAt = None, error_message = None\<rparr>
      in (a, s\<lparr>heap := (heap s)(a \<mapsto> j), next_ref := Suc a, pending := pending s @ [a],
               db_calls := db_calls s @ [SaveQueueJob (job_id j) jd Pending]\<rparr>))"

text \<open>
  \<open>addJob\<close> resumes after \<open>await saveQueueJob\<close>: a rejection is rethrown; otherwise
  \<open>processJob(job.id)\<close> runs its synchronous prefix and \<open>addJob\<close> returns the job
  object, as it is at that moment.
\<close>

definition addJob_saved :: "nat \<Rightarrow> outcome \<Rightarrow> nat \<Rightarrow> queue \<Rightarrow> (string + job) \<times> queue" where
  "addJob_saved now r a s =
     (case r of
        Rejected msg \<Rightarrow> (Inl msg, s)
      | Resolved \<Rightarrow>
          (let s' = snd (processJob_begin now (job_id (deref s a)) s)
           in (Inr (deref s' a), s')))"

subsection \<open>cancelJob\<close>

text \<open>
  \<open>cancelJob(jobId)\<close>. The first pending job with that id is removed from
  \<open>pending\<close>, marked \<open>cancelled\<close> and pushed to \<open>failed\<close>; the call then awaits
  the database update, whose rejection it rethrows, and returns \<open>true\<close>. Without such a
  job it returns \<open>false\<close>.
\<close>

definition cancelJob :: "nat \<Rightarrow> outcome \<Rightarrow> string \<Rightarrow> queue \<Rightarrow> (string + bool) \<times> queue" where
  "cancelJob now r jobId s =
     (case findIndex (has_id s jobId) (pending s) of
        Some pendingIndex \<Rightarrow>
          (let a = pending s ! pendingIndex;
               s1 = s\<lparr>pending := splice1 pendingIndex (pending s)\<rparr>;
               s2 = modify a (\<lambda>j. j\<lparr>status := Cancelled, cancelledAt := Some now\<rparr>) s1;
               s3 = s2\<lparr>failed := failed s2 @ [a]\<rparr>;
               s4 = s3\<lparr>db_calls := db_calls s3 @ [UpdateQueueJob jobId [UStatus Cancelled]]\<rparr>
           in (case r of Rejected msg \<Rightarrow> (Inl msg, s4) | Resolved \<Rightarrow> (Inr True, s4)))
      | None \<Rightarrow> (Inr False, s))"

subsection \<open>clearCompletedJobs and retryFailedJobs\<close>

definition clearCompletedJobs :: "queue \<Rightarrow> bool \<times> queue" where
  "clearCompletedJobs s = (True, s\<lparr>completed := []\<rparr>)"

text \<open>
  One iteration of the loop of \<open>retryFailedJobs\<close>, up to its \<open>await\<close>: the job
  object is marked \<open>pending\<close>, its \<open>retryCount\<close> incremented, and it is pushed to
  \<open>pending\<close>.
\<close>

definition retry_one_begin :: "nat \<Rightarrow> nat \<Rightarrow> queue \<Rightarrow> queue" where
  "retry_one_begin now a s =
     (let s1 = modify a (\<lambda>j. j\<lparr>status := Pending, retryCount := retryCount j + 1,
                                 updatedAt := Some now\<rparr>) s;
          s2 = s1\<lparr>pending := pending s1 @ [a]\<rparr>
      in s2\<lparr>db_calls := db_calls s2 @
            [UpdateQueueJob (job_id (deref s2 a))
               [UStatus Pending, URetryCount (retryCount (deref s2 a))]]\<rparr>)"

text \<open>
  The loop over the snapshot \<open>failedJobs\<close>, run without another task in between. The
  outcomes of the awaited updates are consumed one per job (\<open>Resolved\<close> when the list
  runs out). A rejection leaves the loop and is rethrown; otherwise
  \<open>processJob(job.id)\<close> runs its synchronous prefix. The second component collects the
  \<open>processJob\<close> calls left suspended at their first \<open>await\<close>: the id each was
  called with and the job reference it holds.
\<close>

fun retry_loop :: "nat \<Rightarrow> outcome list \<Rightarrow> nat list \<Rightarrow> queue
    \<Rightarrow> string option \<times> (string \<times> nat) list \<times> queue" where
  "retry_loop now rs [] s = (None, [], s)"
| "retry_loop now rs (a # as) s =
     (let s1 = retry_one_begin now a s in
      case (case rs of [] \<Rightarrow> Resolved | r # _ \<Rightarrow> r) of
        Rejected msg \<Rightarrow> (Some msg, [], s1)
      | Resolved \<Rightarrow>
          (let jobId = job_id (deref s1 a);
               (started, s2) = processJob_begin now jobId s1;
               (err, tasks, s3) = retry_loop now (tl rs) as s2
           in (err, (case started of None \<Rightarrow> [] | Some b \<Rightarrow> [(jobId, b)]) @ tasks, s3)))"

text \<open>\<open>retryFailedJobs()\<close>: returns the number of jobs retried, or rethrows.\<close>

definition retryFailedJobs :: "nat \<Rightarrow> outcome list \<Rightarrow> queue
    \<Rightarrow> (string + nat) \<times> (string \<times> nat) list \<times> queue" where
  "retryFailedJobs now rs s =
     (let failedJobs = failed s;
          (err, tasks, s') = retry_loop now rs failedJobs (s\<lparr>failed := []\<rparr>)
      in ((case err of Some msg \<Rightarrow> Inl msg | None \<Rightarrow> Inr (length failedJobs)), tasks, s'))"

section \<open>The Redis-backed queue (queue.js)\<close>

text \<open>
  This module hands its jobs to a BullMQ \<open>Queue\<close>. BullMQ itself is a dependency and not
  part of the sources; what the module does is fix the options of the queue and build the
  arguments of every \<open>queue.add\<close> call. The model records these calls, in order, as the
  list \<open>waiting\<close>, each with the clock reading at which it was made.
\<close>

record job_options =
  removeOnComplete :: nat
  removeOnFail :: nat
  attempts :: nat
  backoff_type :: string
  backoff_delay :: nat

definition defaultJobOptions :: job_options where
  "defaultJobOptions = \<lparr>removeOnComplete = 100, removeOnFail = 50, attempts = 3,
     backoff_type = ''exponential'', backoff_delay = 2000\<rparr>"

record sendBody = payload +
  priority :: "string option"

record messageData = sendBody +
  jobType :: "string option"

text \<open>
  A job as \<open>queue.add(jobType, data, jobOptions)\<close> receives it. The object \<open>data\<close> has
  the four payload fields and no \<open>jobType\<close>, so its \<open>job_type\<close> is \<open>None\<close>.
\<close>

record waiting_job =
  job_name :: string
  job_data :: jobData
  opt_jobId :: string
  opt_priority :: nat
  opt_delay :: nat
  added_at :: nat

record bull_queue =
  waiting :: "waiting_job list"
  saved :: "db_call list"

definition empty_bull :: bull_queue where
  "empty_bull = \<lparr>waiting = [], saved = []\<rparr>"

record queued =
  result_jobId :: string
  result_status :: string
  estimatedProcessingTime :: nat

text \<open>The expression for \<open>jobOptions.priority\<close>.\<close>

definition priority_number :: "string \<Rightarrow> nat" where
  "priority_number p = (if p = ''high'' then 10 else if p = ''low'' then 1 else 5)"

text \<open>
  \<open>addMessageToQueue(messageData)\<close>. The parameters \<open>uuid\<close> and \<open>delay\<close> are the
  values of \<open>uuidv4()\<close> and \<open>getRandomDelay()\<close>, \<open>now\<close> is \<open>Date.now()\<close>, and
  \<open>added\<close> and \<open>saved_ok\<close> are the outcomes of the awaited \<open>queue.add\<close> and
  \<open>saveQueueJob\<close>; a rejection is rethrown. The job type and the priority default to
  \<open>'send_message'\<close> and \<open>'normal'\<close> when they are undefined. Nothing is validated here.
\<close>

definition addMessageToQueue :: "string \<Rightarrow> nat \<Rightarrow> nat \<Rightarrow> outcome \<Rightarrow> outcome \<Rightarrow> messageData
    \<Rightarrow> bull_queue \<Rightarrow> (string + queued) \<times> bull_queue" where
  "addMessageToQueue uuid delay now added saved_ok messageData q =
     (let jt = (case jobType messageData of None \<Rightarrow> ''send_message'' | Some t \<Rightarrow> t);
          pr = (case priority messageData of None \<Rightarrow> ''normal'' | Some p \<Rightarrow> p);
          d = \<lparr>recipient = recipient messageData, content = content messageData,
               mediaUrl = mediaUrl messageData, mediaType = mediaType messageData,
               job_type = None\<rparr>;
          j = \<lparr>job_name = jt, job_data = d, opt_jobId = uuid,
               opt_priority = priority_number pr, opt_delay = delay, added_at = now\<rparr>
      in case added of
           Rejected msg \<Rightarrow> (Inl msg, q)
         | Resolved \<Rightarrow>
             (let q1 = q\<lparr>waiting := waiting q @ [j]\<rparr>;
                  q2 = q1\<lparr>saved := saved q1 @
                         [SaveQueueJob uuid (d\<lparr>job_type := Some jt\<rparr>) Pending]\<rparr>
              in case saved_ok of
                   Rejected msg \<Rightarrow> (Inl msg, q2)
                 | Resolved \<Rightarrow>
                     (Inr \<lparr>result_jobId = uuid, result_status = ''queued'',
                           estimatedProcessingTime = now + delay\<rparr>, q2)))"

section \<open>Webhook utilities (utils/webhook.js)\<close>

text \<open>
  \<open>crypto.createHmac('sha256', secret).update(payload).digest()\<close> is Node's own; it is
  a parameter \<open>hmac\<close> of the functions that use it, from the key and the message to the
  bytes of the digest. \<open>null\<close> and \<open>undefined\<close> arguments are \<open>None\<close>.
\<close>

type_synonym byte = "8 word"

datatype js_error = TypeError | RangeError | ReferenceError | Error string

text \<open>\<open>digest('hex')\<close>: two lower-case hexadecimal digits for each byte.\<close>

definition hex_digit :: "nat \<Rightarrow> char" where
  "hex_digit d = ''0123456789abcdef'' ! d"

fun hex_encode :: "byte list \<Rightarrow> string" where
  "hex_encode [] = []"
| "hex_encode (b # bs) = hex_digit (unat b div 16) # hex_digit (unat b mod 16) # hex_encode bs"

text \<open>
  \<open>Buffer.from(s, 'hex')\<close>: pairs of hexadecimal digits of either case; decoding stops
  at the first pair that is not one, and a single trailing character is dropped.
\<close>

definition hex_value :: "char \<Rightarrow> nat option" where
  "hex_value c =
     (let n = (of_char c :: nat) in
      if 48 \<le> n \<and> n \<le> 57 then Some (n - 48)
      else if 97 \<le> n \<and> n \<le> 102 then Some (n - 87)
      else if 65 \<le> n \<and> n \<le> 70 then Some (n - 55)
      else None)"

fun hex_decode :: "string \<Rightarrow> byte list" where
  "hex_decode (a # b # cs) =
     (case (hex_value a, hex_value b) of
        (Some x, Some y) \<Rightarrow> of_nat (16 * x + y) # hex_decode cs
      | _ \<Rightarrow> [])"
| "hex_decode _ = []"

text \<open>\<open>s.replace(pat, rep)\<close> with a string pattern: the first occurrence is replaced.\<close>

fun replace_first :: "string \<Rightarrow> string \<Rightarrow> string \<Rightarrow> string" where
  "replace_first pat rep [] = (if pat = [] then rep else [])"
| "replace_first pat rep (c # cs) =
     (if prefix pat (c # cs) then rep @ drop (length pat) (c # cs)
      else c # replace_first pat rep cs)"

text \<open>\<open>crypto.timingSafeEqual\<close> throws a \<open>RangeError\<close> on buffers of different length.\<close>

definition timingSafeEqual :: "byte list \<Rightarrow> byte list \<Rightarrow> js_error + bool" where
  "timingSafeEqual a b = (if length a \<noteq> length b then Inl RangeError else Inr (a = b))"

text \<open>The truth value of an optional string: \<open>undefined\<close> and \<open>''\<close> are falsy.\<close>

definition truthy :: "string option \<Rightarrow> bool" where
  "truthy v = (case v of None \<Rightarrow> False | Some s \<Rightarrow> s \<noteq> [])"

record request =
  req_url :: string
  req_headers :: "(string \<times> string) list"
  req_body :: string

datatype fetch_result = Response nat | NetworkFailure string

text \<open>The headers of \<open>sendWebhook\<close>; the signature is added only for a truthy secret.\<close>

definition webhook_headers :: "(string \<Rightarrow> string \<Rightarrow> byte list) \<Rightarrow> string \<Rightarrow> string option
    \<Rightarrow> (string \<times> string) list" where
  "webhook_headers hmac payload secret =
     [(''Content-Type'', ''application/json''), (''User-Agent'', ''WhatsApp-Bot-Webhook/1.0'')] @
     (if truthy secret
      then [(''X-Webhook-Signature'', ''sha256='' @ hex_encode (hmac (the secret) payload))]
      else [])"

text \<open>
  The \<open>try\<close> block of \<open>sendWebhook(url, data, secret)\<close>. \<open>stringify\<close> is
  \<open>JSON.stringify\<close>, on data it can serialise, and \<open>fetch\<close> is the answer of the
  network to a request: a response with its status, or a failure; a request that never
  settles is outside the model. The second component is the requests sent.
\<close>

definition sendWebhook_try :: "(string \<Rightarrow> string \<Rightarrow> byte list) \<Rightarrow> (request \<Rightarrow> fetch_result)
    \<Rightarrow> ('d \<Rightarrow> string) \<Rightarrow> string \<Rightarrow> 'd \<Rightarrow> string option \<Rightarrow> (js_error + bool) \<times> request list" where
  "sendWebhook_try hmac fetch stringify url data secret =
     (let payload = stringify data;
          headers = webhook_headers hmac payload secret;
          req = \<lparr>req_url = url, req_headers = headers, req_body = payload\<rparr>
      in case fetch req of
           NetworkFailure msg \<Rightarrow> (Inl (Error msg), [req])
         | Response st \<Rightarrow>
             if \<not> (200 \<le> st \<and> st \<le> 299)
             then (Inl (Error (''Webhook failed with status: '' @ toString st)), [req])
             else (Inr True, [req]))"

text \<open>\<open>sendWebhook\<close>: whatever the \<open>try\<close> block throws is logged and becomes \<open>false\<close>.\<close>

definition sendWebhook :: "(string \<Rightarrow> string \<Rightarrow> byte list) \<Rightarrow> (request \<Rightarrow> fetch_result)
    \<Rightarrow> ('d \<Rightarrow> string) \<Rightarrow> string \<Rightarrow> 'd \<Rightarrow> string option \<Rightarrow> bool \<times> request list" where
  "sendWebhook hmac fetch stringify url data secret =
     (case sendWebhook_try hmac fetch stringify url data secret of
        (Inl e, reqs) \<Rightarrow> (False, reqs)
      | (Inr b, reqs) \<Rightarrow> (b, reqs))"

text \<open>
  The \<open>try\<close> block of \<open>verifyWebhookSignature(payload, signature, secret)\<close>.
  \<open>createHmac\<close> and \<open>update\<close> throw a \<open>TypeError\<close> on \<open>null\<close>, and so does the
  call of \<open>replace\<close> on a signature that is \<open>null\<close> or \<open>undefined\<close>.
\<close>

definition verifyWebhookSignature_try :: "(string \<Rightarrow> string \<Rightarrow> byte list) \<Rightarrow> string option
    \<Rightarrow> string option \<Rightarrow> string option \<Rightarrow> js_error + bool" where
  "verifyWebhookSignature_try hmac payload signature secret =
     (case secret of
        None \<Rightarrow> Inl TypeError
      | Some k \<Rightarrow>
          (case payload of
             None \<Rightarrow> Inl TypeError
           | Some p \<Rightarrow>
               (let expectedSignature = hex_encode (hmac k p) in
                 (case signature of
                    None \<Rightarrow> Inl TypeError
                  | Some sg \<Rightarrow>
                      (let receivedSignature = replace_first ''sha256='' [] sg
                       in timingSafeEqual (hex_decode expectedSignature)
                            (hex_decode receivedSignature))))))"

text \<open>\<open>verifyWebhookSignature\<close>: the \<open>catch\<close> block logs the error and returns \<open>false\<close>.\<close>

definition verifyWebhookSignature :: "(string \<Rightarrow> string \<Rightarrow> byte list) \<Rightarrow> string option
    \<Rightarrow> string option \<Rightarrow> string option \<Rightarrow> bool" where
  "verifyWebhookSignature hmac payload signature secret =
     (case verifyWebhookSignature_try hmac payload signature secret of
        Inl e \<Rightarrow> False
      | Inr b \<Rightarrow> b)"

section \<open>The worker's job processor (queue.js)\<close>

record delivery =
  success :: bool
  messageId :: string
  sent_at :: nat

text \<open>
  \<open>processJob(job)\<close> reads \<open>jobType\<close> from \<open>job.data\<close> and switches on it; the
  three send functions are placeholders that report success. Any other value, and a
  missing one, ends in the \<open>default\<close> branch, which throws.
\<close>

definition processJob :: "string \<Rightarrow> nat \<Rightarrow> waiting_job \<Rightarrow> js_error + delivery" where
  "processJob uuid now j =
     (case job_type (job_data j) of
        None \<Rightarrow> Inl (Error ''Unknown job type: undefined'')
      | Some t \<Rightarrow>
          if t = ''send_message'' then Inr \<lparr>success = True, messageId = uuid, sent_at = now\<rparr>
          else if t = ''send_media'' then Inr \<lparr>success = True, messageId = uuid, sent_at = now\<rparr>
          else if t = ''send_template'' then Inr \<lparr>success = True, messageId = uuid, sent_at = now\<rparr>
          else Inl (Error (''Unknown job type: '' @ t)))"

section \<open>The route POST /send (routes/whatsapp.js)\<close>

datatype send_response = Success queued | BadRequest string | ServerError string

text \<open>
  The validation chain of the route: \<open>recipient\<close> not empty, \<open>mediaUrl\<close> a URL when
  present, \<open>priority\<close> one of the three names when present. \<open>isURL\<close> is the
  validator library's test and a parameter. \<open>content\<close> and \<open>mediaType\<close> only have to
  be strings, which the type of the fields says already.
\<close>

definition validators_ok :: "(string \<Rightarrow> bool) \<Rightarrow> sendBody \<Rightarrow> bool" where
  "validators_ok isURL b \<longleftrightarrow>
     truthy (recipient b) \<and>
     (case mediaUrl b of None \<Rightarrow> True | Some u \<Rightarrow> isURL u) \<and>
     (case priority b of None \<Rightarrow> True | Some p \<Rightarrow> p \<in> set [''low'', ''normal'', ''high''])"

text \<open>
  The handler: status 400 for a failed validation, for a body with neither
  \<open>content\<close> nor \<open>mediaUrl\<close>, and for a \<open>mediaUrl\<close> without \<open>mediaType\<close>;
  otherwise the message is queued, and a failure of that is answered with status 500.
\<close>

definition send_handler :: "(string \<Rightarrow> bool) \<Rightarrow> string \<Rightarrow> nat \<Rightarrow> nat \<Rightarrow> outcome \<Rightarrow> outcome
    \<Rightarrow> sendBody \<Rightarrow> bull_queue \<Rightarrow> send_response \<times> bull_queue" where
  "send_handler isURL uuid delay now added saved_ok b q =
     (if \<not> validators_ok isURL b then (BadRequest ''Validation failed'', q)
      else if \<not> truthy (content b) \<and> \<not> truthy (mediaUrl b)
        then (BadRequest ''Either content or mediaUrl must be provided'', q)
      else if truthy (mediaUrl b) \<and> \<not> truthy (mediaType b)
        then (BadRequest ''Media type is required when media URL is provided'', q)
      else
        (case addMessageToQueue uuid delay now added saved_ok
                \<lparr>recipient = recipient b, content = content b, mediaUrl = mediaUrl b,
                 mediaType = mediaType b,
                 priority = Some (case priority b of None \<Rightarrow> ''normal'' | Some p \<Rightarrow> p),
                 jobType = None\<rparr> q of
           (Inl e, q') \<Rightarrow> (ServerError ''Failed to send message'', q')
         | (Inr result, q') \<Rightarrow> (Success result, q')))"

definition is_BadRequest :: "send_response \<Rightarrow> bool" where
  "is_BadRequest r = (case r of BadRequest msg \<Rightarrow> True | _ \<Rightarrow> False)"

section \<open>The webhook fan-out (playwright.js)\<close>

text \<open>
  \<open>triggerWebhooks(message)\<close> uses the names \<open>getWebhooks\<close> and \<open>sendWebhook\<close>.
  A module resolves a name through its imports and declarations, and evaluating a name
  that has no binding throws a \<open>ReferenceError\<close>. The bindings of the two names are a
  parameter of the model: \<open>None\<close> for a name the module does not bind; otherwise, for
  \<open>getWebhooks\<close>, the outcome of calling it (the active subscriptions, or an error),
  and for \<open>sendWebhook\<close> the function called, which may throw and which sends
  requests. The \<open>events\<close> of a subscription are an array of strings, as the
  registration route requires. \<open>clock k\<close> is the reading of \<open>new Date()\<close> in
  iteration \<open>k\<close> of the loop.
\<close>

record 'm envelope =
  event :: string
  timestamp :: nat
  data :: 'm

record webhook =
  url :: string
  secret :: "string option"
  events :: "string list"

record 'm module_scope =
  getWebhooks_binding :: "(js_error + webhook list) option"
  sendWebhook_binding ::
    "(string \<Rightarrow> 'm envelope \<Rightarrow> string option \<Rightarrow> (js_error + bool) \<times> request list) option"

text \<open>
  The scope of playwright.js: it imports \<open>chromium\<close>, \<open>logger\<close>, \<open>uuidv4\<close>,
  \<open>saveMessage\<close>, \<open>saveSession\<close> and \<open>updateSessionStatus\<close>, and declares
  neither \<open>getWebhooks\<close> nor \<open>sendWebhook\<close>.
\<close>

definition playwright_scope :: "'m module_scope" where
  "playwright_scope = \<lparr>getWebhooks_binding = None, sendWebhook_binding = None\<rparr>"

text \<open>
  The loop over the subscriptions. Whatever the call of \<open>sendWebhook\<close> throws, the
  \<open>ReferenceError\<close> of an unbound name included, is caught by the inner \<open>catch\<close>
  and logged; the result is the requests sent.
\<close>

fun webhook_loop :: "'m module_scope \<Rightarrow> (nat \<Rightarrow> nat) \<Rightarrow> 'm \<Rightarrow> nat \<Rightarrow> webhook list
    \<Rightarrow> request list" where
  "webhook_loop scope clock message k [] = []"
| "webhook_loop scope clock message k (w # ws) =
     (if ''message.new'' \<in> set (events w)
      then (case sendWebhook_binding scope of
              None \<Rightarrow> []
            | Some send \<Rightarrow>
                snd (send (url w)
                  \<lparr>event = ''message.new'', timestamp = clock k, data = message\<rparr> (secret w)))
      else []) @
     webhook_loop scope clock message (Suc k) ws"

text \<open>The outer \<open>try\<close> block, and the function with its \<open>catch\<close>, which only logs.\<close>

definition triggerWebhooks_try :: "'m module_scope \<Rightarrow> (nat \<Rightarrow> nat) \<Rightarrow> string option \<Rightarrow> 'm
    \<Rightarrow> (js_error + unit) \<times> request list" where
  "triggerWebhooks_try scope clock WEBHOOK_ENABLED message =
     (if WEBHOOK_ENABLED \<noteq> Some ''true'' then (Inr (), [])
      else case getWebhooks_binding scope of
             None \<Rightarrow> (Inl ReferenceError, [])
           | Some (Inl e) \<Rightarrow> (Inl e, [])
           | Some (Inr webhooks) \<Rightarrow> (Inr (), webhook_loop scope clock message 0 webhooks))"

definition triggerWebhooks :: "'m module_scope \<Rightarrow> (nat \<Rightarrow> nat) \<Rightarrow> string option \<Rightarrow> 'm
    \<Rightarrow> (js_error + unit) \<times> request list" where
  "triggerWebhooks scope clock WEBHOOK_ENABLED message =
     (case triggerWebhooks_try scope clock WEBHOOK_ENABLED message of
        (Inl e, reqs) \<Rightarrow> (Inr (), reqs)
      | (Inr u, reqs) \<Rightarrow> (Inr u, reqs))"

section \<open>Scheduling of the waiting jobs\<close>

text \<open>
  Modelled from the spec: the order in which waiting jobs are taken, which is BullMQ's
  and missing from the sources. The spec keeps the pending set ordered by priority
  weight, descending, then by enqueue time, ascending, and has the worker pop the first
  pending job whose scheduled delay has elapsed.
\<close>

definition pending_order :: "waiting_job list \<Rightarrow> waiting_job list" where
  "pending_order js = sort_key (\<lambda>j. (- int (opt_priority j), added_at j)) js"

text \<open>
  Modelled from the spec: a waiting job is eligible once its scheduled delay, counted
  from the time it was enqueued, has elapsed.
\<close>

definition eligible :: "nat \<Rightarrow> waiting_job \<Rightarrow> bool" where
  "eligible now j \<longleftrightarrow> added_at j + opt_delay j \<le> now"

text \<open>
  Modelled from the spec: the worker pops the first job, in the order of the pending
  set, whose delay has elapsed; \<open>None\<close> when there is none and it has to wait.
\<close>

definition next_job :: "nat \<Rightarrow> waiting_job list \<Rightarrow> waiting_job option" where
  "next_job now js = find (eligible now) (pending_order js)"

text \<open>
  Modelled from the spec: the delay before a failed job is pending again, which is
  computed by BullMQ and missing from the sources. The spec has
  \<open>baseDelay * 2^retryCount\<close>, capped at \<open>maxBackoff\<close>, with the cap 30000 ms by
  default; the base delay and the number of attempts are those of
  \<open>defaultJobOptions\<close>.
\<close>

definition backoff :: "nat \<Rightarrow> nat \<Rightarrow> nat \<Rightarrow> nat" where
  "backoff baseDelay maxBackoff n = min (baseDelay * 2 ^ n) maxBackoff"

text \<open>Modelled from the spec: the default of the cap, which the sources do not have.\<close>

definition maxBackoff_default :: nat where
  "maxBackoff_default = 30000"

section \<open>Concrete runs\<close>

subsection \<open>Runs of the queue\<close>

text \<open>A job as the route \<open>POST /add\<close> hands it to \<open>addJob\<close>.\<close>

definition example_jobData :: jobData where
  "example_jobData = \<lparr>recipient = Some ''+15551234567'', content = Some ''hi'',
     mediaUrl = None, mediaType = None, job_type = Some ''send_text''\<rparr>"








subsection \<open>Requests and keys used in concrete runs\<close>

text \<open>
  A stand-in for HMAC-SHA256 where a concrete run needs one: 32 bytes made of the key and
  the message. The theorems below hold for every function in its place.
\<close>

definition example_mac :: "string \<Rightarrow> string \<Rightarrow> byte list" where
  "example_mac k m = take 32 (map (\<lambda>c. of_nat (of_char c)) (k @ m) @ replicate 32 0)"

definition text_body :: sendBody where
  "text_body = \<lparr>recipient = Some ''+15551234567'', content = Some ''hi'', mediaUrl = None,
     mediaType = None, priority = Some ''high''\<rparr>"

definition media_body_without_type :: sendBody where
  "media_body_without_type = \<lparr>recipient = Some ''+15551234567'', content = None,
     mediaUrl = Some ''https://example.com/a.png'', mediaType = None, priority = None\<rparr>"

definition bogus_message :: messageData where
  "bogus_message = \<lparr>recipient = Some ''+15551234567'', content = Some ''hi'', mediaUrl = None,
     mediaType = None, priority = None, jobType = Some ''bogus''\<rparr>"

definition normal_message :: messageData where
  "normal_message = \<lparr>recipient = Some ''+15550000001'', content = Some ''first'',
     mediaUrl = None, mediaType = None, priority = Some ''normal'', jobType = None\<rparr>"

definition high_message :: messageData where
  "high_message = \<lparr>recipient = Some ''+15551234567'', content = Some ''hi'', mediaUrl = None,
     mediaType = None, priority = Some ''high'', jobType = None\<rparr>"

text \<open>The normal-priority message is queued at time 1000, the high-priority one at 1200.\<close>

definition normal_then_high :: bull_queue where
  "normal_then_high =
     snd (addMessageToQueue ''u-2'' 2000 1200 Resolved Resolved high_message
       (snd (addMessageToQueue ''u-1'' 1500 1000 Resolved Resolved normal_message empty_bull)))"

section \<open>Properties of the in-memory queue\<close>

lemmas segment_defs = addJob_begin_def addJob_saved_def processJob_begin_def
  processJob_catch_def processJob_updated_def processJob_timer_def cancelJob_def
  retry_one_begin_def retryFailedJobs_def modify_def deref_def has_id_def splice1_def
  empty_queue_def Let_def


lemma findIndex_SomeD:
  "findIndex P xs = Some i \<Longrightarrow> i < length xs \<and> P (xs ! i) \<and> (\<forall>k<i. \<not> P (xs ! k))"
proof (induction xs arbitrary: i)
  case Nil
  then show ?case by simp
next
  case (Cons x xs)
  show ?case
  proof (cases "P x")
    case True
    with Cons.prems show ?thesis by simp
  next
    case False
    with Cons.prems obtain j where j: "findIndex P xs = Some j" "i = Suc j"
      by auto
    from Cons.IH [OF j(1)] False j(2) show ?thesis
      by (auto simp: less_Suc_eq_0_disj)
  qed
qed

subsection \<open>Status transitions\<close>

text \<open>
  A run without failures: the job is pending while \<open>addJob\<close> awaits the database,
  processing when \<open>addJob\<close> returns, and completed after the timer.
\<close>

lemma job_completes:
  "(let (a, s1) = addJob_begin 1000 example_jobData empty_queue;
        (r, s2) = addJob_saved 1000 Resolved a s1;
        s3 = processJob_updated 1001 Resolved (toString 1000) s2;
        s4 = processJob_timer 2001 (toString 1000) a s3;
        s5 = processJob_finished 2002 Resolved (toString 1000) s4
    in status (deref s1 a) = Pending \<and> status (deref s2 a) = Processing \<and>
       status (deref s5 a) = Completed \<and> completed s5 = [a] \<and> processing s5 = [] \<and>
       completed (snd (clearCompletedJobs s5)) = [])"
  by (simp add: segment_defs processJob_finished_def clearCompletedJobs_def example_jobData_def)

text \<open>
  C1. The claim: a job's status changes only along pending \<open>\<rightarrow>\<close> processing,
  processing \<open>\<rightarrow>\<close> completed, processing \<open>\<rightarrow>\<close> failed, pending \<open>\<rightarrow>\<close> cancelled and
  failed \<open>\<rightarrow>\<close> pending; cancelled \<open>\<rightarrow>\<close> pending is never observable.
  The code at a concrete run: a job is added at time 1000; while \<open>addJob\<close> awaits
  \<open>saveQueueJob\<close> the job is cancelled, which pushes it to the \<open>failed\<close> array;
  \<open>retryFailedJobs\<close> then takes it from there, marks it \<open>pending\<close> and dispatches
  it. The cancelled job is observed pending and then processing.
\<close>

theorem cancelled_job_is_retried:
  "(let (a, s1) = addJob_begin 1000 example_jobData empty_queue;
        (c, s2) = cancelJob 1001 Resolved (toString 1000) s1;
        (n, tasks, s3) = retryFailedJobs 1002 [Resolved] s2
    in c = Inr True \<and> status (deref s2 a) = Cancelled \<and> failed s2 = [a] \<and>
       status (deref (retry_one_begin 1002 a (s2\<lparr>failed := []\<rparr>)) a) = Pending \<and>
       n = Inr 1 \<and> status (deref s3 a) = Processing \<and> retryCount (deref s3 a) = 1)"
  by (simp add: segment_defs example_jobData_def)

subsection \<open>Retries are not capped\<close>










subsection \<open>Job ids\<close>

text \<open>
  C4. The claim: every enqueued job is returned with status pending and an id distinct
  from the id of every other job, also for two identical payloads at the same instant.
  The code at a concrete run: two calls of \<open>addJob\<close> with the same payload, both at
  clock reading 1700000000000. The two job objects are distinct, both carry the id
  \<open>Date.now().toString()\<close> of that reading, and each is returned after the synchronous
  prefix of \<open>processJob\<close> has already marked it \<open>processing\<close>.
\<close>

theorem addJob_same_instant_same_id:
  "(let (a1, s1) = addJob_begin 1700000000000 example_jobData empty_queue;
        (r1, s2) = addJob_saved 1700000000000 Resolved a1 s1;
        (a2, s3) = addJob_begin 1700000000000 example_jobData s2;
        (r2, s4) = addJob_saved 1700000000000 Resolved a2 s3
    in a1 \<noteq> a2 \<and> map_sum id job_id r1 = Inr (toString 1700000000000) \<and>
       map_sum id job_id r2 = Inr (toString 1700000000000) \<and>
       map_sum id status r1 = Inr Processing \<and> map_sum id status r2 = Inr Processing)"
  by (simp add: segment_defs example_jobData_def)

subsection \<open>cancelJob\<close>





section \<open>Properties of the route and of the Redis-backed queue\<close>

text \<open>
  C3, as amended. \<open>POST /send\<close> rejects a request with status 400 exactly when a field
  validator fails, or \<open>content\<close> and \<open>mediaUrl\<close> are both absent or empty, or
  \<open>mediaUrl\<close> is given without \<open>mediaType\<close>. The job type is not looked at when a
  job is enqueued: \<open>addMessageToQueue\<close> queues a message of any type, and answers
  with the new id and the status \<open>queued\<close>.
\<close>

theorem send_rejects_exactly:
  "(is_BadRequest (fst (send_handler isURL uuid delay now added saved_ok b q)) \<longleftrightarrow>
      (\<not> validators_ok isURL b \<or> (\<not> truthy (content b) \<and> \<not> truthy (mediaUrl b)) \<or>
       (truthy (mediaUrl b) \<and> \<not> truthy (mediaType b)))) \<and>
   fst (addMessageToQueue uuid delay now Resolved Resolved md q) =
     Inr \<lparr>result_jobId = uuid, result_status = ''queued'',
          estimatedProcessingTime = now + delay\<rparr>"
proof
  show "is_BadRequest (fst (send_handler isURL uuid delay now added saved_ok b q)) \<longleftrightarrow>
      (\<not> validators_ok isURL b \<or> (\<not> truthy (content b) \<and> \<not> truthy (mediaUrl b)) \<or>
       (truthy (mediaUrl b) \<and> \<not> truthy (mediaType b)))"
    by (auto simp: send_handler_def is_BadRequest_def split: prod.splits sum.splits)
  show "fst (addMessageToQueue uuid delay now Resolved Resolved md q) =
     Inr \<lparr>result_jobId = uuid, result_status = ''queued'',
          estimatedProcessingTime = now + delay\<rparr>"
    by (simp add: addMessageToQueue_def Let_def)
qed

theorem send_rejects_exactly_witness:
  "\<not> is_BadRequest (fst (send_handler (\<lambda>u. True) ''u-1'' 1500 1000 Resolved Resolved
        text_body empty_bull)) \<and>
   is_BadRequest (fst (send_handler (\<lambda>u. True) ''u-1'' 1500 1000 Resolved Resolved
        media_body_without_type empty_bull))"
  using send_rejects_exactly [of "\<lambda>u. True" "''u-1''" 1500 1000 Resolved Resolved text_body
      empty_bull]
    send_rejects_exactly [of "\<lambda>u. True" "''u-1''" 1500 1000 Resolved Resolved
      media_body_without_type empty_bull]
  by (simp add: validators_ok_def truthy_def text_body_def media_body_without_type_def)

text \<open>
  The claim as stated: a message whose job type is not one the worker knows is enqueued
  all the same.
\<close>

theorem unknown_type_is_queued_counterexample:
  "fst (addMessageToQueue ''u-1'' 1500 1000 Resolved Resolved bogus_message empty_bull) =
     Inr \<lparr>result_jobId = ''u-1'', result_status = ''queued'', estimatedProcessingTime = 2500\<rparr> \<and>
   map job_name (waiting (snd (addMessageToQueue ''u-1'' 1500 1000 Resolved Resolved
       bogus_message empty_bull))) = [''bogus'']"
  by (simp add: addMessageToQueue_def bogus_message_def empty_bull_def Let_def)

text \<open>
  The type is looked at by the worker only. It reads \<open>jobType\<close> from \<open>job.data\<close>,
  where \<open>addMessageToQueue\<close> does not put it, so for a job queued by
  \<open>addMessageToQueue\<close> the switch always ends in its \<open>default\<close> branch.
\<close>

lemma worker_rejects_queued_job:
  "j \<in> set (waiting (snd (addMessageToQueue uuid delay now added saved_ok md empty_bull))) \<Longrightarrow>
     processJob u t j = Inl (Error ''Unknown job type: undefined'')"
  by (auto simp: addMessageToQueue_def empty_bull_def processJob_def Let_def
      split: outcome.splits)

subsection \<open>Priorities\<close>

lemma next_job_best:
  assumes "k \<in> set js" "eligible now k"
  shows "\<exists>j. next_job now js = Some j \<and> j \<in> set js \<and> eligible now j \<and>
           opt_priority k \<le> opt_priority j \<and>
           (opt_priority j = opt_priority k \<longrightarrow> added_at j \<le> added_at k)"
proof -
  let ?key = "\<lambda>j. (- int (opt_priority j), added_at j)"
  let ?xs = "pending_order js"
  have set: "set ?xs = set js" and srt: "sorted (map ?key ?xs)"
    by (simp_all add: pending_order_def)
  from assms set have "\<exists>x\<in>set ?xs. eligible now x"
    by auto
  then obtain j where j: "find (eligible now) ?xs = Some j"
    by (cases "find (eligible now) ?xs") (auto simp: find_None_iff)
  then obtain i where i: "i < length ?xs" "eligible now (?xs ! i)" "j = ?xs ! i"
      "\<forall>m<i. \<not> eligible now (?xs ! m)"
    by (auto simp: find_Some_iff)
  from assms(1) set have "k \<in> set ?xs"
    by simp
  then obtain i' where i': "i' < length ?xs" "?xs ! i' = k"
    unfolding in_set_conv_nth by blast
  with assms(2) i(4) have le: "i \<le> i'"
    by (metis not_le_imp_less)
  have "map ?key ?xs ! i \<le> map ?key ?xs ! i'"
    using srt le i'(1) by (intro sorted_nth_mono) simp_all
  with i(1) i'(1) have "?key (?xs ! i) \<le> ?key (?xs ! i')"
    by (simp only: nth_map)
  with i(3) i'(2) have "?key j \<le> ?key k"
    by simp
  then have "opt_priority k \<le> opt_priority j \<and>
      (opt_priority j = opt_priority k \<longrightarrow> added_at j \<le> added_at k)"
    by (auto simp: less_eq_prod_def)
  moreover from i set have "j \<in> set js" "eligible now j"
    by auto
  ultimately show ?thesis
    using j by (simp add: next_job_def)
qed

text \<open>
  C8. The priorities map to the weights high 10, normal 5, low 1, so high is above
  normal and normal above low, and no priority weighs more than high. Among the waiting
  jobs whose delay has elapsed the worker takes one of the greatest weight, and among
  those of that weight one enqueued earliest: when a high-priority job is eligible, no job
  of lower priority is taken before it, however early that one was enqueued.
\<close>

theorem high_priority_first:
  "priority_number ''low'' < priority_number ''normal'' \<and>
   priority_number ''normal'' < priority_number ''high'' \<and>
   priority_number p \<le> priority_number ''high'' \<and>
   (k \<in> set js \<and> eligible now k \<longrightarrow>
      (\<exists>j. next_job now js = Some j \<and> j \<in> set js \<and> eligible now j \<and>
           opt_priority k \<le> opt_priority j \<and>
           (opt_priority j = opt_priority k \<longrightarrow> added_at j \<le> added_at k)))"
  using next_job_best [of k js now] by (simp add: priority_number_def)

theorem high_priority_first_witness:
  "map opt_jobId (waiting normal_then_high) = [''u-1'', ''u-2''] \<and>
   map_option opt_jobId (next_job 4000 (waiting normal_then_high)) = Some ''u-2''"
proof -
  let ?n = "\<lparr>job_name = ''send_message'',
      job_data = \<lparr>recipient = Some ''+15550000001'', content = Some ''first'', mediaUrl = None,
        mediaType = None, job_type = None\<rparr>,
      opt_jobId = ''u-1'', opt_priority = 5, opt_delay = 1500, added_at = 1000\<rparr>"
  let ?h = "\<lparr>job_name = ''send_message'',
      job_data = \<lparr>recipient = Some ''+15551234567'', content = Some ''hi'', mediaUrl = None,
        mediaType = None, job_type = None\<rparr>,
      opt_jobId = ''u-2'', opt_priority = 10, opt_delay = 2000, added_at = 1200\<rparr>"
  have w: "waiting normal_then_high = [?n, ?h]"
    by (simp add: normal_then_high_def addMessageToQueue_def normal_message_def
        high_message_def empty_bull_def priority_number_def Let_def)
  have "?h \<in> set (waiting normal_then_high) \<and> eligible 4000 ?h"
    by (simp add: w eligible_def)
  with high_priority_first [of "''high''" ?h "waiting normal_then_high" 4000]
  obtain j where j: "next_job 4000 (waiting normal_then_high) = Some j"
      "j \<in> set (waiting normal_then_high)" "opt_priority ?h \<le> opt_priority j"
    by blast
  from j(2,3) w have "j = ?h"
    by auto
  with j(1) w show ?thesis
    by simp
qed

subsection \<open>Backoff\<close>

text \<open>
  C9. For a failed attempt of a job whose retry count is below the maximum of 3 attempts,
  the delay before it is pending again is \<open>baseDelay * 2^retryCount\<close> with the base
  delay 2000 ms, and it stays within the cap of 30000 ms. For any base delay and cap the
  delay never exceeds the cap, and it is \<open>baseDelay * 2^retryCount\<close> whenever that is
  within the cap.
\<close>

theorem backoff_within_cap:
  "backoff b c n \<le> c \<and>
   (b * 2 ^ n \<le> c \<longrightarrow> backoff b c n = b * 2 ^ n) \<and>
   backoff_delay defaultJobOptions = 2000 \<and>
   (n < attempts defaultJobOptions \<longrightarrow>
      backoff (backoff_delay defaultJobOptions) maxBackoff_default n =
        backoff_delay defaultJobOptions * 2 ^ n \<and>
      backoff (backoff_delay defaultJobOptions) maxBackoff_default n \<le> 30000)"
proof (intro conjI impI)
  show "backoff b c n \<le> c"
    by (simp add: backoff_def)
  show "backoff b c n = b * 2 ^ n" if "b * 2 ^ n \<le> c"
    using that by (simp add: backoff_def)
  show "backoff_delay defaultJobOptions = 2000"
    by (simp add: defaultJobOptions_def)
  assume "n < attempts defaultJobOptions"
  then have n: "n = 0 \<or> n = 1 \<or> n = 2"
    by (auto simp: defaultJobOptions_def)
  then show "backoff (backoff_delay defaultJobOptions) maxBackoff_default n =
      backoff_delay defaultJobOptions * 2 ^ n"
    by (auto simp: backoff_def defaultJobOptions_def maxBackoff_default_def)
  show "backoff (backoff_delay defaultJobOptions) maxBackoff_default n \<le> 30000"
    by (simp add: backoff_def maxBackoff_default_def)
qed

theorem backoff_within_cap_witness:
  "(2::nat) < attempts defaultJobOptions \<and>
   backoff (backoff_delay defaultJobOptions) maxBackoff_default 2 = 8000 \<and>
   backoff 2000 30000 4 = 30000 \<and> backoff 2000 30000 3 = 16000"
  using backoff_within_cap [of 2000 30000 2] backoff_within_cap [of 2000 30000 3]
    backoff_within_cap [of 2000 30000 4]
  by (simp add: defaultJobOptions_def backoff_def)

section \<open>Properties of the webhooks\<close>

text \<open>\<open>sendWebhook\<close> of utils/webhook.js sends one request, whatever the answer.\<close>

lemma sendWebhook_requests:
  "snd (sendWebhook hmac fetch stringify u d sec) =
     [\<lparr>req_url = u, req_headers = webhook_headers hmac (stringify d) sec, req_body = stringify d\<rparr>]"
  by (simp add: sendWebhook_def sendWebhook_try_def Let_def split: fetch_result.splits)

text \<open>
  C6. The claim: in a fan-out, the failure of one subscriber never keeps the POST from
  another and never reaches the caller as an exception, and every subscriber that does
  not fail receives its POST exactly once. The code, with the fan-out enabled, for any
  message and whatever subscriptions the database holds: the name \<open>getWebhooks\<close> has
  no binding in the module, so the \<open>try\<close> block ends in a \<open>ReferenceError\<close> before
  the subscriptions are loaded; the \<open>catch\<close> logs it, the function returns without an
  exception, and no request at all is sent.
\<close>

theorem fanout_sends_nothing:
  "triggerWebhooks_try playwright_scope clock (Some ''true'') message =
     (Inl ReferenceError, []) \<and>
   triggerWebhooks playwright_scope clock (Some ''true'') message = (Inr (), [])"
  by (simp add: triggerWebhooks_def triggerWebhooks_try_def playwright_scope_def)

subsection \<open>Signatures\<close>

lemma hex_value_digit: "d < 16 \<Longrightarrow> hex_value (hex_digit d) = Some d"
proof -
  assume "d < 16"
  then have "d = 0 \<or> d = 1 \<or> d = 2 \<or> d = 3 \<or> d = 4 \<or> d = 5 \<or> d = 6 \<or> d = 7 \<or>
      d = 8 \<or> d = 9 \<or> d = 10 \<or> d = 11 \<or> d = 12 \<or> d = 13 \<or> d = 14 \<or> d = 15"
    by arith
  then show ?thesis
    by (elim disjE) (simp_all add: hex_digit_def hex_value_def)
qed

lemma hex_decode_encode: "hex_decode (hex_encode bs) = bs"
proof (induction bs)
  case Nil
  show ?case by simp
next
  case (Cons b bs)
  have "unat b < 256"
    using unsigned_less [of b] by simp
  then have "unat b div 16 < 16"
    by arith
  moreover have "unat b mod 16 < 16"
    by simp
  moreover have "(of_nat (16 * (unat b div 16) + unat b mod 16) :: byte) = b"
    by simp
  ultimately show ?case
    using Cons.IH by (simp add: hex_value_digit)
qed

lemma replace_first_prefix: "pat \<noteq> [] \<Longrightarrow> replace_first pat rep (pat @ s) = rep @ s"
  by (cases pat) simp_all

lemma verify_iff:
  "verifyWebhookSignature hmac p sg sec \<longleftrightarrow>
     (\<exists>p' s' k'. p = Some p' \<and> sg = Some s' \<and> sec = Some k' \<and>
        hex_decode (replace_first ''sha256='' [] s') = hmac k' p')"
  by (auto simp: verifyWebhookSignature_def verifyWebhookSignature_try_def
      hex_decode_encode timingSafeEqual_def Let_def split: option.splits)

text \<open>
  The signature that the signing code computes for a payload, \<open>sha256=\<close> followed by
  the hexadecimal digest, verifies against that payload, for every payload and every
  secret. Against another payload it verifies exactly when the two payloads have the
  same digest under the secret. For a non-empty secret this is the header that
  \<open>sendWebhook\<close> attaches.
\<close>

lemma signature_round_trip:
  "verifyWebhookSignature hmac (Some p) (Some (''sha256='' @ hex_encode (hmac k p))) (Some k) \<and>
   (verifyWebhookSignature hmac (Some p') (Some (''sha256='' @ hex_encode (hmac k p))) (Some k) \<longleftrightarrow>
      hmac k p' = hmac k p) \<and>
   (k \<noteq> [] \<longrightarrow> map_of (webhook_headers hmac p (Some k)) ''X-Webhook-Signature'' =
      Some (''sha256='' @ hex_encode (hmac k p)))"
  by (auto simp: verify_iff webhook_headers_def truthy_def hex_decode_encode
      replace_first_prefix [of "''sha256=''" "[]", simplified])

text \<open>
  C10. \<open>verifyWebhookSignature\<close> returns a boolean for every payload, signature and
  secret, \<open>null\<close> included: when its body throws, the result is \<open>false\<close>, otherwise
  the result of the comparison. It returns \<open>true\<close> exactly when all three arguments
  are present and the signature, without its first \<open>sha256=\<close>, decodes as hexadecimal
  to the bytes of the expected HMAC; a signature that is not hexadecimal, has another
  length or another prefix gives \<open>false\<close>.
\<close>

theorem verifyWebhookSignature_total:
  "(case verifyWebhookSignature_try hmac p sg sec of
      Inl e \<Rightarrow> verifyWebhookSignature hmac p sg sec = False
    | Inr b \<Rightarrow> verifyWebhookSignature hmac p sg sec = b) \<and>
   (verifyWebhookSignature hmac p sg sec \<longleftrightarrow>
     (\<exists>p' s' k'. p = Some p' \<and> sg = Some s' \<and> sec = Some k' \<and>
        hex_decode (replace_first ''sha256='' [] s') = hmac k' p')) \<and>
   (length (hex_decode (replace_first ''sha256='' [] s)) \<noteq> length (hmac k m) \<longrightarrow>
      verifyWebhookSignature_try hmac (Some m) (Some s) (Some k) = Inl RangeError \<and>
      verifyWebhookSignature hmac (Some m) (Some s) (Some k) = False)"
proof (intro conjI impI)
  show "case verifyWebhookSignature_try hmac p sg sec of
      Inl e \<Rightarrow> verifyWebhookSignature hmac p sg sec = False
    | Inr b \<Rightarrow> verifyWebhookSignature hmac p sg sec = b"
    by (simp add: verifyWebhookSignature_def split: sum.splits)
  show "verifyWebhookSignature hmac p sg sec \<longleftrightarrow>
     (\<exists>p' s' k'. p = Some p' \<and> sg = Some s' \<and> sec = Some k' \<and>
        hex_decode (replace_first ''sha256='' [] s') = hmac k' p')"
    by (rule verify_iff)
  assume "length (hex_decode (replace_first ''sha256='' [] s)) \<noteq> length (hmac k m)"
  then show "verifyWebhookSignature_try hmac (Some m) (Some s) (Some k) = Inl RangeError"
    by (auto simp: verifyWebhookSignature_try_def timingSafeEqual_def hex_decode_encode)
  then show "verifyWebhookSignature hmac (Some m) (Some s) (Some k) = False"
    by (simp add: verifyWebhookSignature_def)
qed

theorem verifyWebhookSignature_total_witness:
  "verifyWebhookSignature example_mac (Some ''{\"test\": \"data\"}'') (Some ''invalid-signature'')
     (Some ''test-secret'') = False \<and>
   verifyWebhookSignature example_mac (Some ''{\"test\": \"data\"}'') (Some ''sha256=0a0b'')
     (Some ''test-secret'') = False \<and>
   verifyWebhookSignature example_mac None None None = False"
  using verifyWebhookSignature_total [of example_mac "Some ''{\"test\": \"data\"}''"
      "Some ''invalid-signature''" "Some ''test-secret''" "''invalid-signature''"
      "''test-secret''" "''{\"test\": \"data\"}''"]
    verifyWebhookSignature_total [of example_mac "Some ''{\"test\": \"data\"}''"
      "Some ''sha256=0a0b''" "Some ''test-secret''" "''sha256=0a0b''"
      "''test-secret''" "''{\"test\": \"data\"}''"]
    verifyWebhookSignature_total [of example_mac None None None]
  by (simp add: example_mac_def hex_value_def)

end
